theory Spec2Isabelle
  imports Main
begin

section \<open>Data model\<close>

text \<open>
  The repository holds two variants of one Go file: \<^verbatim>\<open>src/find.go\<close> (FindHost returns
  the hostnames and a host-to-query map) and \<^verbatim>\<open>src/unnamed/part_000\<close> (DeviceQuery has
  an Endpoints field and FindHost expands endpoints). Names of the second variant carry
  the suffix \<open>_p0\<close>. The functions matches, Matches, readDeviceDesc and parseDeviceDesc are
  the same text in both files, so each has one definition here.

  Go strings are byte sequences: \<open>string\<close> (a list of characters). A Go slice is a list;
  the nil slice and the empty slice are both \<open>[]\<close>. A pointer that may be nil is an
  \<open>option\<close>.
\<close>

text \<open>DeviceQuery of \<^verbatim>\<open>src/find.go\<close>.\<close>

record DeviceQuery =
  ModelName :: string
  Manufacturer :: string
  SerialNumber :: string
  Network :: string

text \<open>DeviceQuery of \<^verbatim>\<open>src/unnamed/part_000\<close>: the same four fields and Endpoints.\<close>

record DeviceQuery_p0 = DeviceQuery +
  Endpoints :: "string list"

text \<open>
  \<^verbatim>\<open>ssdp.Service\<close> is declared in the library \<^verbatim>\<open>github.com/koron/go-ssdp\<close>; the code reads
  its fields Type and Location only.
\<close>

record Service =
  Type :: string
  Location :: string

text \<open>
  The struct deviceDesc. Its anonymous inner structs are records of their own; the fields
  of the inner struct Device are prefixed, since DeviceQuery has fields of the same names.
\<close>

record deviceDesc_SpecVersion =
  Major :: int
  Minor :: int

record deviceDesc_Device =
  Device_Manufacturer :: string
  Device_ModelName :: string
  Device_SerialNumber :: string

record deviceDesc =
  XMLName :: string
  SpecVersion :: deviceDesc_SpecVersion
  Device :: deviceDesc_Device

text \<open>UPNPDevice: Desc is a pointer, \<open>None\<close> is nil.\<close>

record UPNPDevice =
  Service :: Service
  Desc :: "deviceDesc option"

section \<open>The query matcher\<close>

text \<open>
  \<^verbatim>\<open>strings.HasSuffix\<close> and \<^verbatim>\<open>strings.HasPrefix\<close> of the Go standard library, as it
  defines them: a length test, then a comparison of the slice.
\<close>

definition strings_HasSuffix :: "string \<Rightarrow> string \<Rightarrow> bool" where
  "strings_HasSuffix s suff =
     (length suff \<le> length s \<and> drop (length s - length suff) s = suff)"

definition strings_HasPrefix :: "string \<Rightarrow> string \<Rightarrow> bool" where
  "strings_HasPrefix s pre = (length pre \<le> length s \<and> take (length pre) s = pre)"

text \<open>
  \<^verbatim>\<open>matches(query, s)\<close>. The slice \<^verbatim>\<open>query[0 : len(query)-2]\<close> is taken only after
  HasSuffix has succeeded, so the length is at least 2 and the slice expression cannot
  panic.
\<close>

definition matches :: "string \<Rightarrow> string \<Rightarrow> bool" where
  "matches query s =
     (if query = s then True
      else if strings_HasSuffix query ''.*''
      then strings_HasPrefix s (take (length query - 2) query)
      else False)"

text \<open>
  \<^verbatim>\<open>(*UPNPDevice).Matches\<close>. The three tests run in the source's order, and \<^verbatim>\<open>&&\<close> is
  short-circuit: \<^verbatim>\<open>pc.Desc.Device\<close> is read only when the query field is not empty, and
  reading it through a nil Desc is a run-time panic.
\<close>

datatype panic = NilDereference

definition Matches :: "UPNPDevice \<Rightarrow> 'a DeviceQuery_scheme \<Rightarrow> panic + bool" where
  "Matches pc query =
     (case Desc pc of
        None \<Rightarrow>
          if ModelName query \<noteq> '''' then Inl NilDereference
          else if Manufacturer query \<noteq> '''' then Inl NilDereference
          else if SerialNumber query \<noteq> '''' then Inl NilDereference
          else Inr True
      | Some desc \<Rightarrow>
          if ModelName query \<noteq> '''' \<and>
             \<not> matches (ModelName query) (Device_ModelName (Device desc)) then Inr False
          else if Manufacturer query \<noteq> '''' \<and>
             \<not> matches (Manufacturer query) (Device_Manufacturer (Device desc)) then Inr False
          else if SerialNumber query \<noteq> '''' \<and>
             \<not> matches (SerialNumber query) (Device_SerialNumber (Device desc)) then Inr False
          else Inr True)"

section \<open>External collaborators\<close>

text \<open>
  The discovery transport (\<^verbatim>\<open>ssdp.Search\<close>), the HTTP client, the XML decoder, the URL
  parser and the context are library code outside the repository. They are parameters of
  the model, gathered in one record; each is a function of its arguments for the
  duration of one call of FindHost. An error value produced by a collaborator is carried
  as its message.
\<close>

type_synonym ext_error = string

text \<open>The search types \<^verbatim>\<open>ssdp.All\<close> and \<^verbatim>\<open>ssdp.RootDevice\<close>.\<close>

datatype searchType = ssdp_All | ssdp_RootDevice

text \<open>
  An HTTP response: its status code, and what \<^verbatim>\<open>io.ReadAll(resp.Body)\<close> yields (the
  bytes of the body, or a read error).
\<close>

record response =
  StatusCode :: int
  Body :: "ext_error + string"

text \<open>A parsed URL; the code calls its method \<^verbatim>\<open>Hostname()\<close> only.\<close>

record URL =
  Hostname :: string

text \<open>
  \<open>ctx_Value\<close> is \<^verbatim>\<open>ctx.Value(FindAllTestKey).([]UPNPDevice)\<close>: \<open>Some all\<close> when the context
  carries a device list under the test key (\<^verbatim>\<open>ok\<close> is true), \<open>None\<close> otherwise.
  \<open>http_NewRequestWithContext\<close> is given the URL (the method is always GET and the body
  nil) and fails or yields the request, which \<open>http_Do\<close> sends; the request is
  identified by its URL.
\<close>

record env =
  ctx_Value :: "UPNPDevice list option"
  ssdp_Search :: "searchType \<Rightarrow> int \<Rightarrow> string \<Rightarrow> ext_error + Service list"
  http_NewRequestWithContext :: "string \<Rightarrow> ext_error + string"
  http_Do :: "string \<Rightarrow> ext_error + response"
  xml_Unmarshal :: "string \<Rightarrow> ext_error + deviceDesc"
  url_Parse :: "string \<Rightarrow> ext_error + URL"

text \<open>
  Go error values. \<open>External\<close> is a collaborator's error returned as it is; the other
  constructors are the \<^verbatim>\<open>fmt.Errorf\<close> calls of the source, with their arguments.
  \<open>NoMatchFound\<close> carries the query batch that \<^verbatim>\<open>%v\<close> prints.
\<close>

datatype 'q error =
    External ext_error
  | CantFetchXml string ext_error
  | HttpNotOk string int
  | CantReadBody string int
  | BadXml string ext_error
  | NoMatchFound "'q list"

section \<open>The descriptor fetcher\<close>

text \<open>
  A Go function returning \<^verbatim>\<open>(*deviceDesc, error)\<close> returns a pair here: the pointer
  (\<open>None\<close> is nil) and the error (\<open>None\<close> is nil).
\<close>

definition parseDeviceDesc ::
  "env \<Rightarrow> string \<Rightarrow> string \<Rightarrow> deviceDesc option \<times> 'q error option" where
  "parseDeviceDesc env url data =
     (case xml_Unmarshal env data of
        Inl err \<Rightarrow> (None, Some (BadXml url err))
      | Inr desc \<Rightarrow> (Some desc, None))"

definition readDeviceDesc :: "env \<Rightarrow> string \<Rightarrow> deviceDesc option \<times> 'q error option" where
  "readDeviceDesc env url =
     (case http_NewRequestWithContext env url of
        Inl err \<Rightarrow> (None, Some (External err))
      | Inr req \<Rightarrow>
          (case http_Do env req of
             Inl err \<Rightarrow> (None, Some (CantFetchXml url err))
           | Inr resp \<Rightarrow>
               if StatusCode resp \<noteq> 200
               then (None, Some (HttpNotOk url (StatusCode resp)))
               else (case Body resp of
                       Inl err \<Rightarrow> (None, Some (CantReadBody url (StatusCode resp)))
                     | Inr data \<Rightarrow> parseDeviceDesc env url data)))"

section \<open>The discovery enumerator\<close>

text \<open>
  The loop over the advertisements of one search, in both files: a descriptor that cannot
  be read is skipped (\<^verbatim>\<open>continue\<close>), any other is appended to \<open>all\<close>. Log output does
  not influence any result and is left out.
\<close>

fun findAll_list :: "env \<Rightarrow> UPNPDevice list \<Rightarrow> Service list \<Rightarrow> UPNPDevice list" where
  "findAll_list env all [] = all"
| "findAll_list env all (srv # rest) =
     (case (readDeviceDesc env (Location srv) :: deviceDesc option \<times> unit error option) of
        (desc, Some err) \<Rightarrow> findAll_list env all rest
      | (desc, None) \<Rightarrow> findAll_list env (all @ [\<lparr>Service = srv, Desc = desc\<rparr>]) rest)"

definition searchType_of :: "bool \<Rightarrow> searchType" where
  "searchType_of rootOnly = (if rootOnly then ssdp_RootDevice else ssdp_All)"

text \<open>findAll of \<^verbatim>\<open>src/find.go\<close>: one network.\<close>

definition findAll :: "env \<Rightarrow> string \<Rightarrow> bool \<Rightarrow> UPNPDevice list \<times> 'q error option" where
  "findAll env network rootOnly =
     (case ctx_Value env of
        Some all \<Rightarrow> (all, None)
      | None \<Rightarrow>
          (case ssdp_Search env (searchType_of rootOnly) 1 network of
             Inl err \<Rightarrow> ([], Some (External err))
           | Inr list \<Rightarrow> (findAll_list env [] list, None)))"

text \<open>
  findAll of \<^verbatim>\<open>src/unnamed/part_000\<close>: a list of networks, searched in order; the first
  failing search returns at once.
\<close>

fun findAll_p0_networks ::
  "env \<Rightarrow> searchType \<Rightarrow> UPNPDevice list \<Rightarrow> string list \<Rightarrow> UPNPDevice list \<times> 'q error option"
  where
  "findAll_p0_networks env searchType all [] = (all, None)"
| "findAll_p0_networks env searchType all (network # rest) =
     (case ssdp_Search env searchType 1 network of
        Inl err \<Rightarrow> ([], Some (External err))
      | Inr list \<Rightarrow> findAll_p0_networks env searchType (findAll_list env all list) rest)"

definition findAll_p0 ::
  "env \<Rightarrow> string list \<Rightarrow> bool \<Rightarrow> UPNPDevice list \<times> 'q error option" where
  "findAll_p0 env networks rootOnly =
     (case ctx_Value env of
        Some all \<Rightarrow> (all, None)
      | None \<Rightarrow> findAll_p0_networks env (searchType_of rootOnly) [] networks)"

section \<open>Host resolution in \<^verbatim>\<open>src/find.go\<close>\<close>

fun parseNetworks_loop :: "string list \<Rightarrow> DeviceQuery list \<Rightarrow> string list" where
  "parseNetworks_loop networks [] = networks"
| "parseNetworks_loop networks (query # rest) =
     (if \<not> (Network query \<in> set networks)
      then parseNetworks_loop (networks @ [Network query]) rest
      else parseNetworks_loop networks rest)"

definition parseNetworks :: "DeviceQuery list \<Rightarrow> string list" where
  "parseNetworks queries = parseNetworks_loop [] queries"

text \<open>
  The state of the three nested loops of FindHost: \<open>hostnames\<close> and \<open>foundQueries\<close>.
  The innermost loop runs over the queries for one device \<open>a\<close>; \<^verbatim>\<open>continue\<close> goes on
  with the next query. A panic of Matches ends the call.
\<close>

type_synonym found = "string list \<times> (string \<rightharpoonup> DeviceQuery)"

fun FindHost_queries ::
  "env \<Rightarrow> UPNPDevice \<Rightarrow> found \<Rightarrow> DeviceQuery list \<Rightarrow> panic + found" where
  "FindHost_queries env a st [] = Inr st"
| "FindHost_queries env a (hostnames, foundQueries) (query # rest) =
     (case Matches a query of
        Inl p \<Rightarrow> Inl p
      | Inr m \<Rightarrow>
          if m then
            (case url_Parse env (Location (Service a)) of
               Inl err \<Rightarrow> FindHost_queries env a (hostnames, foundQueries) rest
             | Inr u \<Rightarrow>
                 if \<not> (Hostname u \<in> set hostnames)
                 then FindHost_queries env a
                        (hostnames @ [Hostname u], foundQueries(Hostname u \<mapsto> query)) rest
                 else FindHost_queries env a (hostnames, foundQueries) rest)
          else FindHost_queries env a (hostnames, foundQueries) rest)"

fun FindHost_devices ::
  "env \<Rightarrow> DeviceQuery list \<Rightarrow> found \<Rightarrow> UPNPDevice list \<Rightarrow> panic + found" where
  "FindHost_devices env queries st [] = Inr st"
| "FindHost_devices env queries st (a # rest) =
     (case FindHost_queries env a st queries of
        Inl p \<Rightarrow> Inl p
      | Inr st' \<Rightarrow> FindHost_devices env queries st' rest)"

text \<open>
  The loop over the networks ends in a panic, in the early return of a search error, or
  with the final state.
\<close>

fun FindHost_networks ::
  "env \<Rightarrow> DeviceQuery list \<Rightarrow> bool \<Rightarrow> found \<Rightarrow> string list \<Rightarrow>
   panic + (DeviceQuery error + found)" where
  "FindHost_networks env queries rootOnly st [] = Inr (Inr st)"
| "FindHost_networks env queries rootOnly st (network # rest) =
     (case findAll env network rootOnly of
        (all, Some err) \<Rightarrow> Inr (Inl err)
      | (all, None) \<Rightarrow>
          (case FindHost_devices env queries st all of
             Inl p \<Rightarrow> Inl p
           | Inr st' \<Rightarrow> FindHost_networks env queries rootOnly st' rest))"

text \<open>
  FindHost returns \<^verbatim>\<open>([]string, map[string]DeviceQuery, error)\<close>: the hostnames, the map
  (\<open>None\<close> is the nil map) and the error (\<open>None\<close> is nil).
\<close>

definition FindHost ::
  "env \<Rightarrow> DeviceQuery list \<Rightarrow> bool \<Rightarrow>
   panic + (string list \<times> (string \<rightharpoonup> DeviceQuery) option \<times> DeviceQuery error option)" where
  "FindHost env queries rootOnly =
     (case FindHost_networks env queries rootOnly ([], Map.empty) (parseNetworks queries) of
        Inl p \<Rightarrow> Inl p
      | Inr (Inl err) \<Rightarrow> Inr ([], None, Some err)
      | Inr (Inr (hostnames, foundQueries)) \<Rightarrow>
          if length hostnames > 0 then Inr (hostnames, Some foundQueries, None)
          else Inr ([], None, Some (NoMatchFound queries)))"

section \<open>Host resolution in \<^verbatim>\<open>src/unnamed/part_000\<close>\<close>

fun parseNetworks_p0_loop :: "string list \<Rightarrow> DeviceQuery_p0 list \<Rightarrow> string list" where
  "parseNetworks_p0_loop networks [] = networks"
| "parseNetworks_p0_loop networks (query # rest) =
     (if Network query \<noteq> '''' \<and> Network query \<in> set networks
      then parseNetworks_p0_loop (networks @ [Network query]) rest
      else parseNetworks_p0_loop networks rest)"

definition parseNetworks_p0 :: "DeviceQuery_p0 list \<Rightarrow> string list" where
  "parseNetworks_p0 queries = parseNetworks_p0_loop [] queries"

text \<open>The loop over the endpoints of a query; \<^verbatim>\<open>fmt.Sprintf("%s/%s", h, endpoint)\<close>.\<close>

fun FindHost_p0_endpoints :: "string \<Rightarrow> string list \<Rightarrow> string list \<Rightarrow> string list" where
  "FindHost_p0_endpoints h hostnames [] = hostnames"
| "FindHost_p0_endpoints h hostnames (endpoint # rest) =
     FindHost_p0_endpoints h (hostnames @ [h @ ''/'' @ endpoint]) rest"

fun FindHost_p0_queries ::
  "env \<Rightarrow> UPNPDevice \<Rightarrow> string list \<Rightarrow> DeviceQuery_p0 list \<Rightarrow> panic + string list" where
  "FindHost_p0_queries env a hostnames [] = Inr hostnames"
| "FindHost_p0_queries env a hostnames (query # rest) =
     (case Matches a query of
        Inl p \<Rightarrow> Inl p
      | Inr m \<Rightarrow>
          if m then
            (case url_Parse env (Location (Service a)) of
               Inl err \<Rightarrow> FindHost_p0_queries env a hostnames rest
             | Inr u \<Rightarrow>
                 if length (Endpoints query) > 0
                 then FindHost_p0_queries env a
                        (FindHost_p0_endpoints (Hostname u) hostnames (Endpoints query)) rest
                 else FindHost_p0_queries env a (hostnames @ [Hostname u]) rest)
          else FindHost_p0_queries env a hostnames rest)"

fun FindHost_p0_devices ::
  "env \<Rightarrow> DeviceQuery_p0 list \<Rightarrow> string list \<Rightarrow> UPNPDevice list \<Rightarrow> panic + string list"
  where
  "FindHost_p0_devices env queries hostnames [] = Inr hostnames"
| "FindHost_p0_devices env queries hostnames (a # rest) =
     (case FindHost_p0_queries env a hostnames queries of
        Inl p \<Rightarrow> Inl p
      | Inr hostnames' \<Rightarrow> FindHost_p0_devices env queries hostnames' rest)"

text \<open>FindHost returns \<^verbatim>\<open>([]string, error)\<close> in this file.\<close>

definition FindHost_p0 ::
  "env \<Rightarrow> DeviceQuery_p0 list \<Rightarrow> bool \<Rightarrow>
   panic + (string list \<times> DeviceQuery_p0 error option)" where
  "FindHost_p0 env queries rootOnly =
     (case findAll_p0 env (parseNetworks_p0 queries) rootOnly of
        (all, Some err) \<Rightarrow> Inr ([], Some err)
      | (all, None) \<Rightarrow>
          (case FindHost_p0_devices env queries [] all of
             Inl p \<Rightarrow> Inl p
           | Inr hostnames \<Rightarrow>
               if length hostnames > 0 then Inr (hostnames, None)
               else Inr ([], Some (NoMatchFound queries))))"

section \<open>Properties of the matcher\<close>

lemma strings_HasSuffix_iff: "strings_HasSuffix s suff \<longleftrightarrow> (\<exists>p. s = p @ suff)"
proof
  assume "strings_HasSuffix s suff"
  then have "s = take (length s - length suff) s @ suff"
    by (metis append_take_drop_id strings_HasSuffix_def)
  then show "\<exists>p. s = p @ suff" ..
next
  assume "\<exists>p. s = p @ suff"
  then show "strings_HasSuffix s suff"
    by (auto simp: strings_HasSuffix_def)
qed

lemma strings_HasPrefix_iff: "strings_HasPrefix s pre \<longleftrightarrow> (\<exists>t. s = pre @ t)"
proof
  assume "strings_HasPrefix s pre"
  then have "s = pre @ drop (length pre) s"
    by (metis append_take_drop_id strings_HasPrefix_def)
  then show "\<exists>t. s = pre @ t" ..
next
  assume "\<exists>t. s = pre @ t"
  then show "strings_HasPrefix s pre"
    by (auto simp: strings_HasPrefix_def)
qed

lemma matches_iff: "matches P s \<longleftrightarrow> (P = s \<or> (\<exists>p t. P = p @ ''.*'' \<and> s = p @ t))"
proof (cases "P = s")
  case True
  then show ?thesis by (simp add: matches_def)
next
  case False
  show ?thesis
  proof (cases "strings_HasSuffix P ''.*''")
    case True
    then obtain p where p: "P = p @ ''.*''"
      by (auto simp: strings_HasSuffix_iff)
    then have "take (length P - 2) P = p" by simp
    with False True p show ?thesis
      by (auto simp: matches_def strings_HasPrefix_iff)
  next
    case no: False
    then have "\<And>p. P \<noteq> p @ ''.*''"
      by (auto simp: strings_HasSuffix_iff)
    with False no show ?thesis
      by (auto simp: matches_def)
  qed
qed

text \<open>
  C2. For every pattern \<open>P\<close> and field \<open>s\<close>, \<open>matches P s\<close> is true exactly when \<open>P\<close> equals
  \<open>s\<close>, or \<open>P\<close> ends with the two characters \<open>.*\<close> and \<open>s\<close> starts with \<open>P\<close> stripped of that
  suffix. Nothing else matches.
\<close>

theorem matches_exact_or_prefix:
  "matches P s \<longleftrightarrow> (P = s \<or> (\<exists>p t. P = p @ ''.*'' \<and> s = p @ t))"
  by (rule matches_iff)

end
